theory Spec2Isabelle
  imports Main
begin

section \<open>Exceptions\<close>

text \<open>
  Every exception that the modelled methods of \<^verbatim>\<open>tasmotizer.py\<close> raise, or let
  through from the library calls they make, is a value of this type. A method that
  mutates its object returns \<open>(error + unit) \<times> state\<close>: \<open>Inl e\<close> with the state as it
  was when \<open>e\<close> was raised, \<open>Inr ()\<close> with the final state.
\<close>

datatype error =
    AttributeError
  | UnicodeDecodeError
  | JSONDecodeError
  | NetworkError
  | ZeroDivisionError
  | KeyError
  | OSError
  | TypeError
  | OverflowError
  | FatalError
  | SerialException

section \<open>Bytes and text\<close>

text \<open>
  A Python \<^verbatim>\<open>bytes\<close> value is a \<open>string\<close> (a list of 8-bit \<open>char\<close>s). A Python
  \<^verbatim>\<open>str\<close> obtained by decoding UTF-8 is represented by that same UTF-8 byte list:
  the characters the code looks for (braces, carriage return, line feed) are ASCII and
  no byte of a multi-byte UTF-8 sequence is below \<open>0x80\<close>, so counting, deleting and
  matching them agree on both representations.
\<close>

definition LBRACE :: char where "LBRACE = CHR ''{''"
definition RBRACE :: char where "RBRACE = CHR ''}''"
definition CR :: char where "CR = CHR 0x0D"
definition LF :: char where "LF = CHR 0x0A"

definition byte :: "char \<Rightarrow> nat" where
  "byte c = of_char c"

definition cont :: "char \<Rightarrow> bool" where
  "cont c \<longleftrightarrow> 0x80 \<le> byte c \<and> byte c \<le> 0xBF"

text \<open>The range of the second byte of a three-byte and of a four-byte sequence.\<close>

definition second3 :: "nat \<Rightarrow> char \<Rightarrow> bool" where
  "second3 b c \<longleftrightarrow>
     (if b = 0xE0 then 0xA0 \<le> byte c \<and> byte c \<le> 0xBF
      else if b = 0xED then 0x80 \<le> byte c \<and> byte c \<le> 0x9F
      else cont c)"

definition second4 :: "nat \<Rightarrow> char \<Rightarrow> bool" where
  "second4 b c \<longleftrightarrow>
     (if b = 0xF0 then 0x90 \<le> byte c \<and> byte c \<le> 0xBF
      else if b = 0xF4 then 0x80 \<le> byte c \<and> byte c \<le> 0x8F
      else cont c)"

text \<open>
  \<^verbatim>\<open>str(data, 'utf-8')\<close> raises \<^verbatim>\<open>UnicodeDecodeError\<close> unless the bytes are
  well-formed UTF-8 (no overlong forms, no surrogates, nothing above U+10FFFF).
\<close>

fun utf8_valid :: "string \<Rightarrow> bool" where
  "utf8_valid [] = True"
| "utf8_valid (c # cs) =
     (if byte c < 0x80 then utf8_valid cs
      else if 0xC2 \<le> byte c \<and> byte c \<le> 0xDF then
        (case cs of c1 # r \<Rightarrow> cont c1 \<and> utf8_valid r | _ \<Rightarrow> False)
      else if 0xE0 \<le> byte c \<and> byte c \<le> 0xEF then
        (case cs of c1 # c2 # r \<Rightarrow> second3 (byte c) c1 \<and> cont c2 \<and> utf8_valid r
                  | _ \<Rightarrow> False)
      else if 0xF0 \<le> byte c \<and> byte c \<le> 0xF4 then
        (case cs of c1 # c2 # c3 # r \<Rightarrow>
                      second4 (byte c) c1 \<and> cont c2 \<and> cont c3 \<and> utf8_valid r
                  | _ \<Rightarrow> False)
      else False)"

text \<open>
  \<^verbatim>\<open>to_parse = str(self.data, 'utf-8').replace('\r', '').replace('\n', '')\<close>
\<close>

definition strip_newlines :: "string \<Rightarrow> string" where
  "strip_newlines s = filter (\<lambda>c. c \<noteq> LF) (filter (\<lambda>c. c \<noteq> CR) s)"

text \<open>
  \<^verbatim>\<open>json_match = re.compile(r"\{.*\}")\<close>; only \<^verbatim>\<open>len(ret) > 0\<close> and
  \<^verbatim>\<open>ret[0]\<close> of \<^verbatim>\<open>ret = json_match.findall(to_parse)\<close> are used, that is, whether
  there is a match and the leftmost one. The leftmost match starts at the first open
  brace that has a close brace after it on the same line (the dot does not match a line
  feed) and, the star being greedy, runs to the last close brace of that line.
\<close>

fun json_match_first :: "string \<Rightarrow> string option" where
  "json_match_first [] = None"
| "json_match_first (c # cs) =
     (if c = LBRACE then
        (let line = takeWhile (\<lambda>x. x \<noteq> LF) cs;
             body = rev (dropWhile (\<lambda>x. x \<noteq> RBRACE) (rev line))
         in if body = [] then json_match_first cs else Some (LBRACE # body))
      else json_match_first cs)"

section \<open>PinConfigDialog: the brace-counting reader\<close>

text \<open>
  The attributes of a \<^verbatim>\<open>PinConfigDialog\<close> that \<^verbatim>\<open>read_init_config\<close>,
  \<^verbatim>\<open>read_gpios\<close> and \<^verbatim>\<open>read_json\<close> touch. \<^verbatim>\<open>self.brackets\<close> is a dict with
  exactly the keys \<^verbatim>\<open>'{'\<close> and \<^verbatim>\<open>'}'\<close>, held as the two fields \<open>brackets_open\<close> and
  \<open>brackets_close\<close>. An attribute that no statement has assigned yet is \<open>None\<close>:
  \<^verbatim>\<open>__init__\<close> assigns \<^verbatim>\<open>read_data\<close>, \<^verbatim>\<open>commands\<close>, \<^verbatim>\<open>module_mode\<close> and \<^verbatim>\<open>port\<close>,
  and \<^verbatim>\<open>read_init_config\<close> assigns \<^verbatim>\<open>components\<close>, \<^verbatim>\<open>gpios\<close>, \<^verbatim>\<open>jsons\<close> and
  \<^verbatim>\<open>brackets\<close>; neither assigns \<^verbatim>\<open>data\<close>.

  The type \<open>'j\<close> is the type of parsed JSON values. \<open>written\<close> lists what was written
  to the serial port, \<open>done_emitted\<close> counts the emissions of the signal
  \<^verbatim>\<open>components_done\<close>, and \<open>gpios_slots\<close> counts the connections of that signal to
  \<^verbatim>\<open>read_gpios\<close>: every \<^verbatim>\<open>connect\<close> adds one.
\<close>

record 'j PinConfigDialog =
  components :: "'j option"
  gpios :: "'j option"
  jsons :: "'j list"
  brackets_open :: int
  brackets_close :: int
  data :: "string option"
  written :: "string list"
  done_emitted :: nat
  gpios_slots :: nat

text \<open>
  \<^verbatim>\<open>read_gpios\<close>: once \<^verbatim>\<open>components\<close> is set, one connection of the signal to this
  slot is removed, and \<^verbatim>\<open>disconnect\<close> raises \<^verbatim>\<open>TypeError\<close> when there is none; then the
  second query is written.
\<close>

definition read_gpios :: "'j PinConfigDialog \<Rightarrow> (error + unit) \<times> 'j PinConfigDialog" where
  "read_gpios s =
     (if components s \<noteq> None \<and> gpios_slots s = 0 then (Inl TypeError, s)
      else
        (let s1 = (if components s \<noteq> None then s\<lparr>gpios_slots := gpios_slots s - 1\<rparr> else s)
         in (Inr (), s1\<lparr>written := written s1 @ [''GPIO'' @ [LF]]\<rparr>)))"

text \<open>
  \<^verbatim>\<open>read_init_config\<close>: resets the results and the counters, connects the slots and
  writes the first query. The close counter starts at \<open>-1\<close>.
\<close>

definition read_init_config :: "'j PinConfigDialog \<Rightarrow> 'j PinConfigDialog" where
  "read_init_config s =
     s\<lparr>components := None, gpios := None, jsons := [],
       brackets_open := 0, brackets_close := - 1,
       gpios_slots := Suc (gpios_slots s),
       written := written s @ [''GPIOs'' @ [LF]]\<rparr>"

text \<open>
  \<^verbatim>\<open>self.components_done.emit()\<close>: the slot \<^verbatim>\<open>read_gpios\<close> runs before \<^verbatim>\<open>emit\<close>
  returns, once for each connection that is there when the emission starts and that is
  still there when its turn comes.
\<close>

fun call_slots :: "nat \<Rightarrow> 'j PinConfigDialog \<Rightarrow> 'j PinConfigDialog" where
  "call_slots 0 s = s"
| "call_slots (Suc n) s =
     (if gpios_slots s = 0 then s else call_slots n (snd (read_gpios s)))"

definition emit_components_done :: "'j PinConfigDialog \<Rightarrow> 'j PinConfigDialog" where
  "emit_components_done s =
     (let s1 = s\<lparr>done_emitted := Suc (done_emitted s)\<rparr>
      in call_slots (gpios_slots s1) s1)"

text \<open>
  \<^verbatim>\<open>read_json\<close>, one call on the bytes \<open>d\<close> that \<^verbatim>\<open>self.port.readAll()\<close> returns.
  Lines 341 to 344 first: the two counters after the chunk \<open>d\<close> has been counted.
\<close>

definition count_brackets :: "string \<Rightarrow> 'j PinConfigDialog \<Rightarrow> 'j PinConfigDialog" where
  "count_brackets d s =
     (let s1 = s\<lparr>brackets_open := brackets_open s + int (count_list d LBRACE)\<rparr>;
          s2 = (if brackets_open s1 > 0 then s1\<lparr>brackets_close := 0\<rparr> else s1)
      in s2\<lparr>brackets_close := brackets_close s2 + int (count_list d RBRACE)\<rparr>)"

text \<open>
  Lines 345 to 355. \<open>loads\<close> stands for \<^verbatim>\<open>json.loads\<close>, with \<open>None\<close> for
  \<^verbatim>\<open>JSONDecodeError\<close>. The \<^verbatim>\<open>print\<close> of line 348 writes to the standard output
  only and is left out.
\<close>

definition read_json ::
  "(string \<Rightarrow> 'j option) \<Rightarrow> string \<Rightarrow> 'j PinConfigDialog \<Rightarrow> (error + unit) \<times> 'j PinConfigDialog"
where
  "read_json loads d s =
     (let s3 = count_brackets d s
      in case data s3 of
           None \<Rightarrow> (Inl AttributeError, s3)
         | Some buf \<Rightarrow>
             (let s4 = s3\<lparr>data := Some (buf @ d)\<rparr>
              in if brackets_open s4 - brackets_close s4 = 0 then
                   (if \<not> utf8_valid (buf @ d) then (Inl UnicodeDecodeError, s4)
                    else
                      (case json_match_first (strip_newlines (buf @ d)) of
                         None \<Rightarrow> (Inr (), (emit_components_done s4)\<lparr>data := Some []\<rparr>)
                       | Some r0 \<Rightarrow>
                           (case loads r0 of
                              None \<Rightarrow> (Inl JSONDecodeError, s4)
                            | Some j \<Rightarrow>
                                (Inr (),
                                 (emit_components_done (s4\<lparr>jsons := jsons s4 @ [j]\<rparr>))
                                   \<lparr>data := Some []\<rparr>))))
                 else (Inr (), s4)))"

text \<open>
  The slot called once for each chunk that arrives, in order. An exception ends the
  sequence: the chunks after it are not read.
\<close>

fun feed ::
  "(string \<Rightarrow> 'j option) \<Rightarrow> string list \<Rightarrow> 'j PinConfigDialog \<Rightarrow> (error + unit) \<times> 'j PinConfigDialog"
where
  "feed loads [] s = (Inr (), s)"
| "feed loads (d # ds) s =
     (case read_json loads d s of
        (Inl e, s') \<Rightarrow> (Inl e, s')
      | (Inr u, s') \<Rightarrow> feed loads ds s')"

text \<open>
  The state after the slot has been called for each chunk in turn, whether or not a call
  raised.
\<close>

fun slot_calls ::
  "(string \<Rightarrow> 'j option) \<Rightarrow> string list \<Rightarrow> 'j PinConfigDialog \<Rightarrow> 'j PinConfigDialog"
where
  "slot_calls loads [] s = s"
| "slot_calls loads (d # ds) s = slot_calls loads ds (snd (read_json loads d s))"

section \<open>ESPWorker: the flashing thread\<close>

text \<open>
  The keyword arguments \<^verbatim>\<open>**params\<close> of \<^verbatim>\<open>ESPWorker.__init__\<close>. The key
  \<^verbatim>\<open>'backup_size'\<close> is there only when a backup was asked for (\<open>None\<close>: no such key).
\<close>

record esp_params =
  p_file_path :: string
  p_auto_reset :: bool
  p_erase :: bool
  p_backup_size :: "string option"

text \<open>How a call of \<^verbatim>\<open>esptool.main\<close> ends.\<close>

datatype outcome = Returns | Raises error

text \<open>
  What the worker does that others can see: the calls of \<^verbatim>\<open>esptool.main\<close> with their
  argument lists, the return of a call, and the signals \<^verbatim>\<open>waiting\<close>, \<^verbatim>\<open>error\<close> and
  \<^verbatim>\<open>done\<close>.
\<close>

datatype event =
    Call "string list"
  | Ret outcome
  | Emit_waiting
  | Emit_error error
  | Emit_done

text \<open>
  The statement of \<^verbatim>\<open>run\<close> (with \<^verbatim>\<open>wait_for_user\<close> inlined) that the worker thread
  executes next, named by its line in \<^verbatim>\<open>tasmotizer.py\<close>. \<open>In_backup\<close> and \<open>In_write\<close>:
  inside the call of \<^verbatim>\<open>esptool.main\<close> of line 56 and of line 68. \<open>Uncaught e\<close>: \<open>e\<close> left
  \<^verbatim>\<open>run\<close>, which has no handler for it.
\<close>

datatype pc =
    L50 | L53 | In_backup | L58 | L75 | L76 | L77 | L62 | In_write
  | L71 error | L72 | Finished | Uncaught error

text \<open>
  The worker object with the state of its thread. \<open>w_continue\<close> is \<^verbatim>\<open>self._continue\<close>,
  \<open>sw_continue\<close> is the continue flag of the flashing driver, which the worker shares with
  it, \<open>now\<close> is the time stamp that line 55 formats, \<open>pc\<close> the statement to execute next
  and \<open>trace\<close> the events so far.
\<close>

record ESPWorker =
  w_command :: "string list"
  w_actions :: "string list"
  w_params :: esp_params
  w_continue :: bool
  sw_continue :: bool
  now :: string
  pc :: pc
  trace :: "event list"

text \<open>
  Modelled from the spec: the module \<^verbatim>\<open>tasmotizer_esptool\<close> is not among the sources.
  Its object \<^verbatim>\<open>esptool.sw\<close> holds the flashing driver's continue flag, a boolean cell:
  \<^verbatim>\<open>setContinueFlag(v)\<close> stores \<open>v\<close>, \<^verbatim>\<open>continueFlag()\<close> returns what was stored last,
  and \<^verbatim>\<open>esptool.main\<close> reads the flag and never stores to it.
\<close>

definition setContinueFlag :: "bool \<Rightarrow> ESPWorker \<Rightarrow> ESPWorker" where
  "setContinueFlag v w = w\<lparr>sw_continue := v\<rparr>"

definition continueFlag :: "ESPWorker \<Rightarrow> bool" where
  "continueFlag w = sw_continue w"

text \<open>
  \<^verbatim>\<open>ESPWorker.__init__(port, actions, **params)\<close>, in a process where the driver's flag
  holds \<open>flag\<close> and the clock will show \<open>stamp\<close>.
\<close>

definition ESPWorker_init ::
  "string \<Rightarrow> string list \<Rightarrow> esp_params \<Rightarrow> bool \<Rightarrow> string \<Rightarrow> ESPWorker"
where
  "ESPWorker_init port acts params flag stamp =
     \<lparr>w_command = [''--chip'', ''esp8266'', ''--port'', port, ''--baud'', ''115200''],
      w_actions = acts, w_params = params, w_continue = False,
      sw_continue = flag, now = stamp, pc = L50, trace = []\<rparr>"

definition command_backup :: "ESPWorker \<Rightarrow> string \<Rightarrow> string list" where
  "command_backup w bsize =
     [''read_flash'', ''0x00000'', bsize, ''backup_'' @ now w @ ''.bin'']"

definition command_write :: "ESPWorker \<Rightarrow> string list" where
  "command_write w =
     [''write_flash'', ''--flash_mode'', ''dout'', ''0x00000'', p_file_path (w_params w)]
     @ (if ''erase'' \<in> set (w_actions w) then [''--erase-all''] else [])"

definition emit :: "event \<Rightarrow> ESPWorker \<Rightarrow> ESPWorker" where
  "emit e w = w\<lparr>trace := trace w @ [e]\<rparr>"

text \<open>
  One statement of the worker thread. Inside \<^verbatim>\<open>esptool.main\<close>, and once \<^verbatim>\<open>run\<close> is
  over, the thread has no statement of its own to execute. At line 77 the thread sleeps
  and stays at line 77 as long as \<^verbatim>\<open>self._continue\<close> is false.
\<close>

definition step :: "ESPWorker \<Rightarrow> ESPWorker" where
  "step w =
     (case pc w of
        L50 \<Rightarrow> (setContinueFlag True w)\<lparr>pc := L53\<rparr>
      | L53 \<Rightarrow>
          (if ''backup'' \<in> set (w_actions w) then
             (case p_backup_size (w_params w) of
                None \<Rightarrow> w\<lparr>pc := Uncaught KeyError\<rparr>
              | Some bsize \<Rightarrow>
                  (emit (Call (w_command w @ command_backup w bsize)) w)\<lparr>pc := In_backup\<rparr>)
           else w\<lparr>pc := L62\<rparr>)
      | In_backup \<Rightarrow> w
      | L58 \<Rightarrow> (if \<not> p_auto_reset (w_params w) then w\<lparr>pc := L75\<rparr> else w\<lparr>pc := L62\<rparr>)
      | L75 \<Rightarrow> w\<lparr>w_continue := False, pc := L76\<rparr>
      | L76 \<Rightarrow> (emit Emit_waiting w)\<lparr>pc := L77\<rparr>
      | L77 \<Rightarrow> (if \<not> w_continue w then w else w\<lparr>pc := L62\<rparr>)
      | L62 \<Rightarrow>
          (if continueFlag w \<and> ''write'' \<in> set (w_actions w) then
             (emit (Call (w_command w @ command_write w)) w)\<lparr>pc := In_write\<rparr>
           else w\<lparr>pc := L72\<rparr>)
      | In_write \<Rightarrow> w
      | L71 e \<Rightarrow> (emit (Emit_error e) w)\<lparr>pc := L72\<rparr>
      | L72 \<Rightarrow> (emit Emit_done w)\<lparr>pc := Finished\<rparr>
      | Finished \<Rightarrow> w
      | Uncaught e \<Rightarrow> w)"

text \<open>
  The call of \<^verbatim>\<open>esptool.main\<close> in progress ends. Line 70 catches \<^verbatim>\<open>FatalError\<close> and
  \<^verbatim>\<open>SerialException\<close>; any other exception leaves \<^verbatim>\<open>run\<close>.
\<close>

definition after_main :: "pc \<Rightarrow> outcome \<Rightarrow> pc" where
  "after_main next r =
     (case r of
        Returns \<Rightarrow> next
      | Raises e \<Rightarrow> (if e = FatalError \<or> e = SerialException then L71 e else Uncaught e))"

definition main_ends :: "outcome \<Rightarrow> ESPWorker \<Rightarrow> ESPWorker" where
  "main_ends r w =
     (case pc w of
        In_backup \<Rightarrow> (emit (Ret r) w)\<lparr>pc := after_main L58 r\<rparr>
      | In_write \<Rightarrow> (emit (Ret r) w)\<lparr>pc := after_main L72 r\<rparr>
      | _ \<Rightarrow> w)"

text \<open>The two methods that the dialog's thread calls on the worker.\<close>

definition continue_ok :: "ESPWorker \<Rightarrow> ESPWorker" where
  "continue_ok w = w\<lparr>w_continue := True\<rparr>"

definition abort :: "ESPWorker \<Rightarrow> ESPWorker" where
  "abort w = setContinueFlag False w"

text \<open>
  A run of the worker next to the dialog's thread is an interleaving: a list that says,
  in order, when the worker executes a statement, when the driver call in progress ends
  and how, and when the dialog's thread calls \<^verbatim>\<open>continue_ok\<close> or \<^verbatim>\<open>abort\<close>.
\<close>

datatype action = Step | Main_ends outcome | Continue_ok | Abort

fun exec1 :: "action \<Rightarrow> ESPWorker \<Rightarrow> ESPWorker" where
  "exec1 Step w = step w"
| "exec1 (Main_ends r) w = main_ends r w"
| "exec1 Continue_ok w = continue_ok w"
| "exec1 Abort w = abort w"

fun exec :: "action list \<Rightarrow> ESPWorker \<Rightarrow> ESPWorker" where
  "exec [] w = w"
| "exec (a # as) w = exec as (exec1 a w)"

section \<open>ProcessDialog: download, then the worker\<close>

text \<open>
  The keyword arguments that \<^verbatim>\<open>Tasmotizer.start_process\<close> passes to
  \<^verbatim>\<open>ProcessDialog.__init__\<close>. \<open>k_file_path = None\<close> is Python's \<^verbatim>\<open>None\<close>;
  \<open>k_backup_size\<close> is the index of the entry selected in the combo box of flash sizes,
  whose entries are labelled \<^verbatim>\<open>f'{2 ** s}MB' for s in range(5)\<close>.
\<close>

record kwargs =
  k_file_path :: "string option"
  k_backup :: bool
  k_backup_size :: nat
  k_erase :: bool
  k_auto_reset :: bool

text \<open>\<^verbatim>\<open>QNetworkReply.error()\<close>: \<^verbatim>\<open>NoError\<close>, or one of the error codes.\<close>

datatype reply_error = NoError | Reply_error nat

text \<open>
  The dialog. \<open>d_action_widgets\<close> maps an action to the value of its progress bar,
  \<open>d_request\<close> is the URL of the request that \<^verbatim>\<open>download_bin\<close> has sent, \<open>d_files\<close> the
  files written so far, and \<open>d_esp\<close> the arguments of the \<^verbatim>\<open>ESPWorker\<close> that
  \<^verbatim>\<open>run_esp\<close> has created and started (\<open>None\<close>: no worker yet). \<open>d_backup_size\<close> is
  assigned, and read, only when \<open>d_backup\<close> holds.
\<close>

record ProcessDialog =
  d_port :: string
  d_auto_reset :: bool
  d_file_path :: "string option"
  d_backup :: bool
  d_backup_size :: nat
  d_erase :: bool
  d_actions :: "string list"
  d_action_widgets :: "string \<rightharpoonup> int"
  d_bin_data :: string
  d_request :: "string option"
  d_files :: "string \<rightharpoonup> string"
  d_esp :: "(string \<times> string list \<times> esp_params) option"

text \<open>Python's truth value of a path: \<^verbatim>\<open>None\<close> and the empty string are false.\<close>

definition truthy :: "string option \<Rightarrow> bool" where
  "truthy p = (case p of None \<Rightarrow> False | Some x \<Rightarrow> x \<noteq> [])"

definition startswith_http :: "string option \<Rightarrow> bool" where
  "startswith_http p = (case p of None \<Rightarrow> False | Some x \<Rightarrow> take 4 x = ''http'')"

text \<open>The decimal digits of a number, as \<^verbatim>\<open>f'{n}'\<close> prints them.\<close>

definition digit_char :: "nat \<Rightarrow> char" where
  "digit_char d = ''0123456789'' ! d"

function str_of_nat :: "nat \<Rightarrow> string" where
  "str_of_nat n =
     (if n < 10 then [digit_char n] else str_of_nat (n div 10) @ [digit_char (n mod 10)])"
  by pat_completeness auto
termination
  by (relation "measure id") auto

declare str_of_nat.simps [simp del]

text \<open>Line 725: \<^verbatim>\<open>backup_size = f'0x{2 ** self.backup_size}00000'\<close>.\<close>

definition backup_size_text :: "nat \<Rightarrow> string" where
  "backup_size_text n = ''0x'' @ str_of_nat (2 ^ n) @ ''00000''"

text \<open>
  \<^verbatim>\<open>run_esp\<close>: builds the parameters, creates the worker on the current list of actions
  and starts its thread.
\<close>

definition run_esp :: "ProcessDialog \<Rightarrow> ProcessDialog" where
  "run_esp s =
     (let params =
            \<lparr>p_file_path = (case d_file_path s of None \<Rightarrow> [] | Some p \<Rightarrow> p),
             p_auto_reset = d_auto_reset s,
             p_erase = d_erase s,
             p_backup_size =
               (if d_backup s then Some (backup_size_text (d_backup_size s)) else None)\<rparr>
      in s\<lparr>d_esp := Some (d_port s, d_actions s, params)\<rparr>)"

definition download_bin :: "ProcessDialog \<Rightarrow> ProcessDialog" where
  "download_bin s = s\<lparr>d_request := d_file_path s\<rparr>"

definition start_process :: "ProcessDialog \<Rightarrow> ProcessDialog" where
  "start_process s =
     (if ''download'' \<in> set (d_actions s) then
        (let s1 = download_bin s in s1\<lparr>d_actions := drop 1 (d_actions s1)\<rparr>)
      else run_esp s)"

text \<open>A new progress bar shows no value yet, which Qt reports as \<open>-1\<close>.\<close>

definition create_ui :: "ProcessDialog \<Rightarrow> ProcessDialog" where
  "create_ui s = s\<lparr>d_action_widgets := map_of (map (\<lambda>a. (a, - 1)) (d_actions s))\<rparr>"

text \<open>\<^verbatim>\<open>ProcessDialog.__init__(port, **kwargs)\<close>, with the files that exist so far.\<close>

definition ProcessDialog_init ::
  "string \<Rightarrow> kwargs \<Rightarrow> (string \<rightharpoonup> string) \<Rightarrow> ProcessDialog"
where
  "ProcessDialog_init port kw files =
     (let acts =
            (if truthy (k_file_path kw) \<and> startswith_http (k_file_path kw)
             then [''download''] else [])
            @ (if k_backup kw then [''backup''] else [])
            @ (if k_erase kw then [''erase''] else [])
            @ (if truthy (k_file_path kw) then [''write''] else []);
          s = \<lparr>d_port = port, d_auto_reset = k_auto_reset kw,
               d_file_path = k_file_path kw, d_backup = k_backup kw,
               d_backup_size = k_backup_size kw, d_erase = k_erase kw,
               d_actions = acts, d_action_widgets = Map.empty, d_bin_data = [],
               d_request = None, d_files = files, d_esp = None\<rparr>
      in start_process (create_ui s))"

text \<open>\<^verbatim>\<open>appendBinFile\<close>, on the bytes that the reply has ready.\<close>

definition appendBinFile :: "string \<Rightarrow> ProcessDialog \<Rightarrow> ProcessDialog" where
  "appendBinFile chunk s = s\<lparr>d_bin_data := d_bin_data s @ chunk\<rparr>"

text \<open>\<^verbatim>\<open>self.file_path.split('/')[-1]\<close>: what follows the last slash.\<close>

definition last_component :: "string \<Rightarrow> string" where
  "last_component p = rev (takeWhile (\<lambda>c. c \<noteq> CHR ''/'') (rev p))"

text \<open>
  \<^verbatim>\<open>saveBinFile\<close>, the slot of the reply's signal \<^verbatim>\<open>finished\<close>; \<open>err\<close> is what
  \<^verbatim>\<open>self.bin_reply.error()\<close> returns. Opening a file with the empty name fails; other
  failures of the file system are not modelled.
\<close>

definition saveBinFile :: "reply_error \<Rightarrow> ProcessDialog \<Rightarrow> (error + unit) \<times> ProcessDialog" where
  "saveBinFile err s =
     (if err = NoError then
        (case d_file_path s of
           None \<Rightarrow> (Inl AttributeError, s)
         | Some p \<Rightarrow>
             (let s1 = s\<lparr>d_file_path := Some (last_component p)\<rparr>
              in if last_component p = [] then (Inl OSError, s1)
                 else (Inr (),
                       run_esp (s1\<lparr>d_files := (d_files s1)(last_component p \<mapsto> d_bin_data s1)\<rparr>))))
      else (Inl NetworkError, s))"

text \<open>
  \<^verbatim>\<open>QProgressBar.setValue\<close> on a bar with the default range from 0 to 100. The argument
  is a C \<^verbatim>\<open>int\<close>: a Python integer outside of it raises \<^verbatim>\<open>OverflowError\<close>. A value
  outside the range of the bar leaves the bar as it is.
\<close>

definition setValue :: "string \<Rightarrow> int \<Rightarrow> ProcessDialog \<Rightarrow> (error + unit) \<times> ProcessDialog" where
  "setValue a v s =
     (if v < - 2147483648 \<or> 2147483647 < v then (Inl OverflowError, s)
      else if v < 0 \<or> 100 < v then (Inr (), s)
      else (Inr (), s\<lparr>d_action_widgets := (d_action_widgets s)(a \<mapsto> v)\<rparr>))"

text \<open>
  Line 705: \<^verbatim>\<open>recv//total*100\<close> is \<^verbatim>\<open>(recv//total)*100\<close>, with Python's floor
  division, which on integers is \<open>div\<close>, and its \<^verbatim>\<open>ZeroDivisionError\<close>.
\<close>

definition progress_value :: "int \<Rightarrow> int \<Rightarrow> error + int" where
  "progress_value recv tot =
     (if tot = 0 then Inl ZeroDivisionError else Inr (recv div tot * 100))"

definition updateBinProgress :: "int \<Rightarrow> int \<Rightarrow> ProcessDialog \<Rightarrow> (error + unit) \<times> ProcessDialog" where
  "updateBinProgress recv tot s =
     (case d_action_widgets s ''download'' of
        None \<Rightarrow> (Inl KeyError, s)
      | Some old \<Rightarrow>
          (case progress_value recv tot of
             Inl e \<Rightarrow> (Inl e, s)
           | Inr v \<Rightarrow> setValue ''download'' v s))"

text \<open>
  Modelled from the spec: the flashing driver (module \<^verbatim>\<open>tasmotizer_esptool\<close>) is not
  among the sources. It takes the size argument of \<^verbatim>\<open>read_flash\<close> as an integer
  literal; \<open>hex_literal\<close> is the number that a literal \<^verbatim>\<open>0x\<close> followed by hexadecimal
  digits denotes, and \<open>None\<close> for a text of another form.
\<close>

definition hex_digit :: "char \<Rightarrow> nat option" where
  "hex_digit c =
     (let b = byte c in
      if byte (CHR ''0'') \<le> b \<and> b \<le> byte (CHR ''9'') then Some (b - byte (CHR ''0''))
      else if byte (CHR ''a'') \<le> b \<and> b \<le> byte (CHR ''f'') then Some (b - byte (CHR ''a'') + 10)
      else if byte (CHR ''A'') \<le> b \<and> b \<le> byte (CHR ''F'') then Some (b - byte (CHR ''A'') + 10)
      else None)"

fun hex_digits :: "nat \<Rightarrow> string \<Rightarrow> nat option" where
  "hex_digits acc [] = Some acc"
| "hex_digits acc (c # cs) =
     (case hex_digit c of None \<Rightarrow> None | Some d \<Rightarrow> hex_digits (16 * acc + d) cs)"

definition hex_literal :: "string \<Rightarrow> nat option" where
  "hex_literal t =
     (if take 2 t = ''0x'' \<and> drop 2 t \<noteq> [] then hex_digits 0 (drop 2 t) else None)"

section \<open>Observations on a run of the worker\<close>

text \<open>The event of the call of line 56 and of the call of line 68.\<close>

definition backup_call :: "ESPWorker \<Rightarrow> string \<Rightarrow> event" where
  "backup_call w bs = Call (w_command w @ command_backup w bs)"

definition write_call :: "ESPWorker \<Rightarrow> event" where
  "write_call w = Call (w_command w @ command_write w)"

definition is_call :: "event \<Rightarrow> bool" where
  "is_call e = (case e of Call c \<Rightarrow> True | _ \<Rightarrow> False)"

text \<open>
  \<^verbatim>\<open>continue_ok\<close> has been called while the worker, started as \<open>w0\<close>, was in
  \<^verbatim>\<open>wait_for_user\<close> after line 75, which sets \<^verbatim>\<open>self._continue\<close> to false.
\<close>

definition continued :: "ESPWorker \<Rightarrow> action list \<Rightarrow> bool" where
  "continued w0 sch \<longleftrightarrow>
     (\<exists>sch1 sch2. sch = sch1 @ Continue_ok # sch2
        \<and> (pc (exec sch1 w0) = L76 \<or> pc (exec sch1 w0) = L77))"

text \<open>The constructor's arguments are never assigned again.\<close>

definition same_config :: "ESPWorker \<Rightarrow> ESPWorker \<Rightarrow> bool" where
  "same_config w0 w \<longleftrightarrow>
     w_command w = w_command w0 \<and> w_actions w = w_actions w0
     \<and> w_params w = w_params w0 \<and> now w = now w0"

text \<open>
  What the worker has done so far, by the statement it is at, when it backs up first
  (the call \<open>B\<close>), does not reset by itself, and then writes (the call \<open>W\<close>).
\<close>

definition shape :: "event \<Rightarrow> event \<Rightarrow> ESPWorker \<Rightarrow> bool" where
  "shape B W w =
     (case pc w of
        L50 \<Rightarrow> trace w = []
      | L53 \<Rightarrow> trace w = []
      | In_backup \<Rightarrow> trace w = [B]
      | L58 \<Rightarrow> trace w = [B, Ret Returns]
      | L75 \<Rightarrow> trace w = [B, Ret Returns]
      | L76 \<Rightarrow> trace w = [B, Ret Returns]
      | L77 \<Rightarrow> trace w = [B, Ret Returns, Emit_waiting]
      | L62 \<Rightarrow> trace w = [B, Ret Returns, Emit_waiting]
      | In_write \<Rightarrow> trace w = [B, Ret Returns, Emit_waiting, W]
      | L71 e \<Rightarrow> trace w = [B, Ret (Raises e)]
                 \<or> trace w = [B, Ret Returns, Emit_waiting, W, Ret (Raises e)]
      | Uncaught e \<Rightarrow> trace w = [B, Ret (Raises e)]
                 \<or> trace w = [B, Ret Returns, Emit_waiting, W, Ret (Raises e)]
      | L72 \<Rightarrow> (\<exists>e. trace w = [B, Ret (Raises e), Emit_error e])
                 \<or> trace w = [B, Ret Returns, Emit_waiting]
                 \<or> trace w = [B, Ret Returns, Emit_waiting, W, Ret Returns]
                 \<or> (\<exists>e. trace w = [B, Ret Returns, Emit_waiting, W, Ret (Raises e), Emit_error e])
      | Finished \<Rightarrow> (\<exists>e. trace w = [B, Ret (Raises e), Emit_error e, Emit_done])
                 \<or> trace w = [B, Ret Returns, Emit_waiting, Emit_done]
                 \<or> trace w = [B, Ret Returns, Emit_waiting, W, Ret Returns, Emit_done]
                 \<or> (\<exists>e. trace w = [B, Ret Returns, Emit_waiting, W, Ret (Raises e), Emit_error e, Emit_done]))"

text \<open>
  The worker is past the loop of line 77, or about to leave it, only if \<^verbatim>\<open>continue_ok\<close>
  was called during the wait.
\<close>

definition hist :: "event \<Rightarrow> ESPWorker \<Rightarrow> action list \<Rightarrow> ESPWorker \<Rightarrow> bool" where
  "hist W w0 sch w \<longleftrightarrow>
     (((pc w = L76 \<or> pc w = L77) \<and> w_continue w) \<or> pc w = L62 \<or> W \<in> set (trace w)
        \<longrightarrow> continued w0 sch)"

section \<open>Concrete inputs\<close>

text \<open>
  A dialog asked to back up a flash of the size class 4, which the combo box labels
  \<^verbatim>\<open>16MB\<close>, and to write a local image.
\<close>

definition kw_backup16 :: kwargs where
  "kw_backup16 =
     \<lparr>k_file_path = Some ''tasmota.bin'', k_backup = True, k_backup_size = 4,
      k_erase = False, k_auto_reset = False\<rparr>"

text \<open>A dialog asked to write an image that has to be downloaded first.\<close>

definition kw_download :: kwargs where
  "kw_download =
     \<lparr>k_file_path = Some ''http://ota.tasmota.com/tasmota/release/tasmota.bin'',
      k_backup = False, k_backup_size = 0, k_erase = False, k_auto_reset = False\<rparr>"

text \<open>
  A \<^verbatim>\<open>PinConfigDialog\<close> as \<^verbatim>\<open>__init__\<close> leaves it: nothing written, nothing
  connected, no attribute \<^verbatim>\<open>data\<close>. The fields that only \<^verbatim>\<open>read_init_config\<close> assigns
  hold placeholders, which \<^verbatim>\<open>read_init_config\<close> overwrites.
\<close>

definition new_dialog :: "string PinConfigDialog" where
  "new_dialog =
     \<lparr>components = None, gpios = None, jsons = [], brackets_open = 0, brackets_close = 0,
      data = None, written = [], done_emitted = 0, gpios_slots = 0\<rparr>"

text \<open>
  The same dialog after \<^verbatim>\<open>read_init_config\<close>: \<open>started\<close>, the state in which the
  code calls \<^verbatim>\<open>read_json\<close>. No statement of \<^verbatim>\<open>PinConfigDialog\<close> assigns the attribute
  \<^verbatim>\<open>data\<close> before line 345 reads it; \<open>buffered\<close> is \<open>started\<close> with that attribute set
  from outside to the empty bytes \<^verbatim>\<open>b''\<close>, as the sibling class \<^verbatim>\<open>DeviceIP\<close> sets its
  own in \<^verbatim>\<open>__init__\<close>.
\<close>

definition started :: "string PinConfigDialog" where
  "started = read_init_config new_dialog"

definition buffered :: "string PinConfigDialog" where
  "buffered = started\<lparr>data := Some []\<rparr>"

text \<open>
  A stand-in for \<^verbatim>\<open>json.loads\<close> on concrete texts: it accepts a text and returns the
  text itself as the parsed value, and is applied below only to texts that are JSON
  objects.
\<close>

definition loads_text :: "string \<Rightarrow> string option" where
  "loads_text t = Some t"

definition nested_object :: string where
  "nested_object = ''{\"a\": {\"b\": 1}}''"

text \<open>
  A worker asked to back up 1MB, not to reset by itself, and to erase and write; and a
  run of it in which both driver calls return and the user continues after one sleep.
\<close>

definition params_1MB :: esp_params where
  "params_1MB = \<lparr>p_file_path = ''tasmota.bin'', p_auto_reset = False, p_erase = True,
     p_backup_size = Some ''0x100000''\<rparr>"

definition worker_1MB :: ESPWorker where
  "worker_1MB = ESPWorker_init ''COM3'' [''backup'', ''erase'', ''write''] params_1MB False ''20240101_120000''"

definition full_run :: "action list" where
  "full_run = [Step, Step, Main_ends Returns, Step, Step, Step, Step, Continue_ok, Step, Step,
               Main_ends Returns, Step]"

section \<open>The size of the backup\<close>

lemma backup_size_text_4: "backup_size_text 4 = ''0x1600000''"
  by (simp add: backup_size_text_def str_of_nat.simps digit_char_def)

lemma backup_size_up_to_8MB:
  assumes "n \<le> 3"
  shows "hex_literal (backup_size_text n) = Some (2 ^ n * 0x100000)"
proof -
  from assms consider "n = 0" | "n = 1" | "n = 2" | "n = 3"
    by linarith
  then show ?thesis
    by cases
      (simp_all add: backup_size_text_def str_of_nat.simps digit_char_def
         hex_literal_def hex_digit_def byte_def)
qed

lemma backup16_worker:
  "d_esp (ProcessDialog_init ''COM3'' kw_backup16 Map.empty) =
     Some (''COM3'', [''backup'', ''write''],
           \<lparr>p_file_path = ''tasmota.bin'', p_auto_reset = False, p_erase = False,
              p_backup_size = Some ''0x1600000''\<rparr>)"
  by (simp add: ProcessDialog_init_def kw_backup16_def truthy_def startswith_http_def
        create_ui_def start_process_def run_esp_def Let_def backup_size_text_4)

lemma backup16_call:
  "trace (exec [Step, Step]
       (ESPWorker_init ''COM3'' [''backup'', ''write'']
          \<lparr>p_file_path = ''tasmota.bin'', p_auto_reset = False, p_erase = False,
             p_backup_size = Some ''0x1600000''\<rparr> flag stamp)) =
     [Call [''--chip'', ''esp8266'', ''--port'', ''COM3'', ''--baud'', ''115200'',
            ''read_flash'', ''0x00000'', ''0x1600000'', ''backup_'' @ stamp @ ''.bin'']]"
  by (simp add: step_def ESPWorker_init_def setContinueFlag_def emit_def command_backup_def)

text \<open>
  C3. Claim: for every size class \<open>n\<close> from 0 to 4 the backup size handed to the flashing
  driver denotes \<open>2 ^ n\<close> megabytes. The code writes the decimal digits of \<open>2 ^ n\<close> between
  \<^verbatim>\<open>0x\<close> and five zeros. For \<open>n \<le> 3\<close> that is one digit and the literal denotes
  \<open>2 ^ n * 0x100000\<close> bytes (lemma \<open>backup_size_up_to_8MB\<close>); for \<open>n = 4\<close> the digits are
  \<^verbatim>\<open>16\<close>, the literal is \<^verbatim>\<open>0x1600000\<close>, and it denotes 23068672 bytes, 22 megabytes,
  not the 16777216 bytes of 16 megabytes. That literal is the size argument of the
  \<^verbatim>\<open>read_flash\<close> call that the worker makes.
\<close>

theorem backup_size_class_4_is_22MB:
  "hex_literal (backup_size_text 4) = Some 23068672
   \<and> (23068672 :: nat) \<noteq> 2 ^ 4 * 0x100000
   \<and> (case d_esp (ProcessDialog_init ''COM3'' kw_backup16 Map.empty) of
         None \<Rightarrow> False
       | Some (port, acts, params) \<Rightarrow>
           trace (exec [Step, Step] (ESPWorker_init port acts params flag stamp)) =
             [Call [''--chip'', ''esp8266'', ''--port'', ''COM3'', ''--baud'', ''115200'',
                    ''read_flash'', ''0x00000'', ''0x1600000'',
                    ''backup_'' @ stamp @ ''.bin'']])"
proof -
  have a: "hex_literal (backup_size_text 4) = Some 23068672"
    by (simp add: backup_size_text_4 hex_literal_def hex_digit_def byte_def)
  have b: "(23068672 :: nat) \<noteq> 2 ^ 4 * 0x100000"
    by simp
  have c: "(case d_esp (ProcessDialog_init ''COM3'' kw_backup16 Map.empty) of
         None \<Rightarrow> False
       | Some (port, acts, params) \<Rightarrow>
           trace (exec [Step, Step] (ESPWorker_init port acts params flag stamp)) =
             [Call [''--chip'', ''esp8266'', ''--port'', ''COM3'', ''--baud'', ''115200'',
                    ''read_flash'', ''0x00000'', ''0x1600000'',
                    ''backup_'' @ stamp @ ''.bin'']])"
    unfolding backup16_worker option.case prod.case by (rule backup16_call)
  from a b c show ?thesis by (intro conjI)
qed

section \<open>A failed download\<close>

lemma download_first_no_worker:
  assumes "truthy (k_file_path kw)" and "startswith_http (k_file_path kw)"
  shows "d_esp (ProcessDialog_init port kw files) = None"
  using assms
  by (simp add: ProcessDialog_init_def start_process_def download_bin_def
        create_ui_def Let_def)

lemma appendBinFile_keeps_esp: "d_esp (fold appendBinFile chunks s) = d_esp s"
  by (induction chunks arbitrary: s) (simp_all add: appendBinFile_def)

text \<open>
  C4. When the image is to be downloaded (the path is a URL, so that \<^verbatim>\<open>'download'\<close> is
  the first action) and the reply finishes with an error, \<^verbatim>\<open>saveBinFile\<close> raises
  \<^verbatim>\<open>NetworkError\<close> and leaves the dialog as it was: no worker has been created, neither
  by \<^verbatim>\<open>__init__\<close> nor while the chunks of the reply arrived, so the flashing driver is
  never called.
\<close>

theorem download_failure_never_flashes:
  assumes "truthy (k_file_path kw)"
    and "startswith_http (k_file_path kw)"
    and "err \<noteq> NoError"
  shows "saveBinFile err (fold appendBinFile chunks (ProcessDialog_init port kw files)) =
           (Inl NetworkError, fold appendBinFile chunks (ProcessDialog_init port kw files))
         \<and> d_esp (fold appendBinFile chunks (ProcessDialog_init port kw files)) = None"
proof -
  have "d_esp (ProcessDialog_init port kw files) = None"
    using assms(1,2) by (rule download_first_no_worker)
  then have "d_esp (fold appendBinFile chunks (ProcessDialog_init port kw files)) = None"
    by (simp add: appendBinFile_keeps_esp)
  moreover have "saveBinFile err s = (Inl NetworkError, s)" for s
    using assms(3) by (simp add: saveBinFile_def)
  ultimately show ?thesis
    by simp
qed

theorem download_failure_never_flashes_witness:
  "truthy (k_file_path kw_download) \<and> startswith_http (k_file_path kw_download)
   \<and> Reply_error 3 \<noteq> NoError
   \<and> saveBinFile (Reply_error 3)
        (fold appendBinFile [''abc'', ''de''] (ProcessDialog_init ''COM3'' kw_download Map.empty)) =
       (Inl NetworkError,
        fold appendBinFile [''abc'', ''de''] (ProcessDialog_init ''COM3'' kw_download Map.empty))
   \<and> d_esp (fold appendBinFile [''abc'', ''de'']
        (ProcessDialog_init ''COM3'' kw_download Map.empty)) = None"
proof -
  have h1: "truthy (k_file_path kw_download)"
    by (simp add: kw_download_def truthy_def)
  have h2: "startswith_http (k_file_path kw_download)"
    by (simp add: kw_download_def startswith_http_def)
  have h3: "Reply_error 3 \<noteq> NoError"
    by simp
  show ?thesis
    using h1 h2 h3
      download_failure_never_flashes [OF h1 h2 h3, of "[''abc'', ''de'']" "''COM3''" Map.empty]
    by simp
qed

section \<open>The progress of the download\<close>

text \<open>
  C10. For a progress report with \<open>0 \<le> recv \<le> tot\<close> and \<open>0 < tot\<close> (the received bytes
  never exceed a known total) the value handed to the progress bar of the download is 0
  as long as \<open>recv < tot\<close> and 100 when \<open>recv = tot\<close>, because the floor division comes
  before the multiplication; the bar of the download then shows that value.
\<close>

theorem download_progress_is_0_or_100:
  fixes recv tot :: int
  assumes "0 \<le> recv" and "recv \<le> tot" and "0 < tot"
    and "d_action_widgets s ''download'' = Some old"
  shows "progress_value recv tot = Inr (if recv = tot then 100 else 0)
         \<and> updateBinProgress recv tot s =
             (Inr (), s\<lparr>d_action_widgets :=
                (d_action_widgets s)(''download'' \<mapsto> (if recv = tot then 100 else 0))\<rparr>)"
proof -
  have v: "progress_value recv tot = Inr (if recv = tot then 100 else 0)"
    using assms(1-3) by (auto simp: progress_value_def)
  then show ?thesis
    using assms(4) by (auto simp: updateBinProgress_def setValue_def)
qed

theorem download_progress_is_0_or_100_witness:
  "(0 :: int) \<le> 512 \<and> (512 :: int) \<le> 1024 \<and> (0 :: int) < 1024
   \<and> d_action_widgets (ProcessDialog_init ''COM3'' kw_download Map.empty) ''download'' = Some (- 1)
   \<and> progress_value 512 1024 = Inr 0
   \<and> updateBinProgress 512 1024 (ProcessDialog_init ''COM3'' kw_download Map.empty) =
       (Inr (), (ProcessDialog_init ''COM3'' kw_download Map.empty)
          \<lparr>d_action_widgets :=
             (d_action_widgets (ProcessDialog_init ''COM3'' kw_download Map.empty))
               (''download'' \<mapsto> 0)\<rparr>)"
proof -
  have h: "d_action_widgets (ProcessDialog_init ''COM3'' kw_download Map.empty) ''download''
             = Some (- 1)"
    by (simp add: ProcessDialog_init_def kw_download_def truthy_def startswith_http_def
          create_ui_def start_process_def download_bin_def Let_def)
  have a: "(0 :: int) \<le> 512" and b: "(512 :: int) \<le> 1024" and c: "(0 :: int) < 1024"
    by simp_all
  have d: "(if (512 :: int) = 1024 then 100 else 0) = (0 :: int)"
    by simp
  from download_progress_is_0_or_100 [OF a b c h] a b c h
  show ?thesis
    unfolding d by (intro conjI) simp_all
qed

section \<open>The worker: the wait for the user, and abort\<close>

lemma exec_append: "exec (xs @ ys) w = exec ys (exec xs w)"
  by (induction xs arbitrary: w) simp_all

lemma exec1_config: "same_config w0 w \<Longrightarrow> same_config w0 (exec1 a w)"
  apply (cases a)
  subgoal
    by (cases "pc w")
       (auto simp: step_def same_config_def emit_def setContinueFlag_def split: option.splits)
  subgoal for r by (cases "pc w") (auto simp: same_config_def emit_def main_ends_def)
  subgoal by (simp add: same_config_def continue_ok_def)
  subgoal by (simp add: same_config_def abort_def setContinueFlag_def)
  done

lemma exec1_shape:
  assumes cfg: "same_config w0 w"
    and acts: "''backup'' \<in> set (w_actions w0)" "''write'' \<in> set (w_actions w0)"
    and ar: "\<not> p_auto_reset (w_params w0)" and bs: "p_backup_size (w_params w0) = Some bs"
    and B: "B = Call (w_command w0 @ command_backup w0 bs)"
    and W: "W = Call (w_command w0 @ command_write w0)"
    and sh: "shape B W w"
  shows "shape B W (exec1 a w)"
proof -
  have cb: "command_backup w bs = command_backup w0 bs" and cw: "command_write w = command_write w0"
    using cfg by (simp_all add: same_config_def command_backup_def command_write_def)
  show ?thesis
  proof (cases a)
    case Step
    then show ?thesis using assms cb cw
      by (cases "pc w")
         (auto simp: step_def shape_def same_config_def emit_def setContinueFlag_def
            continueFlag_def)
  next
    case (Main_ends r)
    then show ?thesis using assms
      by (cases "pc w"; cases r) (auto simp: shape_def main_ends_def after_main_def emit_def)
  next
    case Continue_ok
    then show ?thesis using sh by (cases "pc w") (auto simp: shape_def continue_ok_def)
  next
    case Abort
    then show ?thesis using sh by (cases "pc w") (auto simp: shape_def abort_def setContinueFlag_def)
  qed
qed


lemma exec_config: "same_config w0 (exec sch w0)"
proof (induction sch rule: rev_induct)
  case Nil
  show ?case by (simp add: same_config_def)
next
  case (snoc a sch)
  then show ?case by (simp add: exec_append exec1_config)
qed

lemma init_shape: "shape B W (ESPWorker_init port acts params flag stamp)"
  by (simp add: shape_def ESPWorker_init_def)

lemma exec_shape:
  assumes acts: "''backup'' \<in> set (w_actions w0)" "''write'' \<in> set (w_actions w0)"
    and ar: "\<not> p_auto_reset (w_params w0)" and bs: "p_backup_size (w_params w0) = Some bs"
    and B: "B = Call (w_command w0 @ command_backup w0 bs)"
    and W: "W = Call (w_command w0 @ command_write w0)"
    and sh: "shape B W w0"
  shows "shape B W (exec sch w0)"
proof (induction sch rule: rev_induct)
  case Nil
  show ?case using sh by simp
next
  case (snoc a sch)
  from exec1_shape [OF exec_config acts ar bs B W snoc.IH, of a]
  show ?case by (simp add: exec_append)
qed

lemma continued_snoc: "continued w0 sch \<Longrightarrow> continued w0 (sch @ [a])"
  unfolding continued_def by (metis append_Cons append_assoc)

lemma continued_now:
  "pc (exec sch w0) = L76 \<or> pc (exec sch w0) = L77 \<Longrightarrow> continued w0 (sch @ [Continue_ok])"
  unfolding continued_def by blast

lemma hist_step:
  assumes cfg: "same_config w0 w"
    and acts: "''backup'' \<in> set (w_actions w0)"
    and ar: "\<not> p_auto_reset (w_params w0)"
    and W: "W = Call (w_command w0 @ command_write w0)"
    and w: "w = exec sch w0"
    and h: "hist W w0 sch w"
  shows "hist W w0 (sch @ [a]) (exec1 a w)"
proof (cases "continued w0 sch")
  case True
  then show ?thesis by (simp add: hist_def continued_snoc)
next
  case False
  with h have pre: "\<not> ((pc w = L76 \<or> pc w = L77) \<and> w_continue w)" "pc w \<noteq> L62" "W \<notin> set (trace w)"
    by (auto simp: hist_def)
  show ?thesis
  proof (cases a)
    case Step
    then show ?thesis using pre cfg acts ar W
      by (cases "pc w")
         (auto simp: step_def hist_def same_config_def emit_def setContinueFlag_def command_backup_def
            command_write_def split: option.splits)
  next
    case (Main_ends r)
    then show ?thesis using pre
      by (cases "pc w"; cases r) (auto simp: hist_def main_ends_def after_main_def emit_def W)
  next
    case Continue_ok
    show ?thesis
    proof (cases "pc w = L76 \<or> pc w = L77")
      case True
      with w have "continued w0 (sch @ [Continue_ok])" by (simp add: continued_now)
      then show ?thesis using Continue_ok by (simp add: hist_def)
    next
      case False
      then show ?thesis using pre Continue_ok by (auto simp: hist_def continue_ok_def)
    qed
  next
    case Abort
    then show ?thesis using pre by (auto simp: hist_def abort_def setContinueFlag_def)
  qed
qed

lemma exec_hist:
  assumes acts: "''backup'' \<in> set (w_actions w0)"
    and ar: "\<not> p_auto_reset (w_params w0)"
    and W: "W = Call (w_command w0 @ command_write w0)"
    and init: "pc w0 = L50" "trace w0 = []"
  shows "hist W w0 sch (exec sch w0)"
proof (induction sch rule: rev_induct)
  case Nil
  show ?case using init by (simp add: hist_def)
next
  case (snoc a sch)
  from hist_step [OF exec_config acts ar W refl snoc.IH, of a]
  show ?case by (simp add: exec_append)
qed


lemma shape_waiting:
  assumes "shape B W w" and "B \<noteq> Emit_waiting" and "W \<noteq> Emit_waiting"
  shows "count_list (trace w) Emit_waiting \<le> 1"
    and "Emit_waiting \<in> set (trace w) \<Longrightarrow> \<exists>rest. trace w = [B, Ret Returns, Emit_waiting] @ rest"
  using assms by (cases "pc w"; auto simp: shape_def)+

lemma shape_write:
  assumes "shape B W w" and "B \<noteq> W" and "W \<in> set (trace w)" and "\<exists>c. W = Call c"
  shows "\<exists>rest. trace w = [B, Ret Returns, Emit_waiting, W] @ rest \<and> Emit_waiting \<notin> set rest"
  using assms by (cases "pc w"; auto simp: shape_def)

lemma shape_finished:
  assumes "shape B W w" and "\<exists>c. B = Call c" and "\<exists>c. W = Call c"
    and "pc w = Finished" and "Ret Returns \<in> set (trace w)"
  shows "count_list (trace w) Emit_waiting = 1"
  using assms by (auto simp: shape_def)

text \<open>
  C2. A worker whose actions contain \<^verbatim>\<open>'backup'\<close> and \<^verbatim>\<open>'write'\<close> and whose
  \<^verbatim>\<open>auto_reset\<close> is false, in any interleaving \<open>sch\<close> with the dialog's thread: the signal
  \<^verbatim>\<open>waiting\<close> is emitted at most once; when it is emitted, the backup call and its normal
  return come right before it; when the write call has been made, the events so far are
  the backup call, its return, the one \<^verbatim>\<open>waiting\<close> and the write call, in this order,
  and \<^verbatim>\<open>continue_ok\<close> was called during the wait; and when \<^verbatim>\<open>run\<close> is over after a
  driver call that returned normally, \<^verbatim>\<open>waiting\<close> was emitted exactly once.
\<close>

theorem wait_for_user_once_before_write:
  assumes "''backup'' \<in> set acts" and "''write'' \<in> set acts"
    and "\<not> p_auto_reset params" and "p_backup_size params = Some bs"
    and "w0 = ESPWorker_init port acts params flag stamp"
    and "w = exec sch w0"
  shows "count_list (trace w) Emit_waiting \<le> 1
       \<and> (Emit_waiting \<in> set (trace w) \<longrightarrow>
            (\<exists>rest. trace w = [backup_call w0 bs, Ret Returns, Emit_waiting] @ rest))
       \<and> (write_call w0 \<in> set (trace w) \<longrightarrow>
            (\<exists>rest. trace w = [backup_call w0 bs, Ret Returns, Emit_waiting, write_call w0] @ rest
                    \<and> Emit_waiting \<notin> set rest)
            \<and> continued w0 sch)
       \<and> (pc w = Finished \<and> Ret Returns \<in> set (trace w) \<longrightarrow>
            count_list (trace w) Emit_waiting = 1)"
proof -
  let ?B = "backup_call w0 bs" and ?W = "write_call w0"
  have cfg: "w_actions w0 = acts" "w_params w0 = params" "pc w0 = L50" "trace w0 = []"
    using assms(5) by (simp_all add: ESPWorker_init_def)
  have sh: "shape ?B ?W w"
    unfolding assms(6)
    by (rule exec_shape [where bs = bs])
       (use assms(1-4) cfg in \<open>simp_all add: backup_call_def write_call_def shape_def\<close>)
  have hi: "hist ?W w0 sch w"
    unfolding assms(6)
    by (rule exec_hist) (use assms(1-4) cfg in \<open>simp_all add: write_call_def\<close>)
  have ne: "?B \<noteq> ?W"
    by (simp add: backup_call_def write_call_def command_backup_def command_write_def)
  have a: "count_list (trace w) Emit_waiting \<le> 1"
    by (rule shape_waiting(1) [OF sh]) (simp_all add: backup_call_def write_call_def)
  have b: "Emit_waiting \<in> set (trace w) \<longrightarrow> (\<exists>rest. trace w = [?B, Ret Returns, Emit_waiting] @ rest)"
    using shape_waiting(2) [OF sh] by (simp add: backup_call_def write_call_def)
  have c: "?W \<in> set (trace w) \<longrightarrow>
            (\<exists>rest. trace w = [?B, Ret Returns, Emit_waiting, ?W] @ rest \<and> Emit_waiting \<notin> set rest)"
    using shape_write [OF sh ne] by (simp add: write_call_def)
  have d: "?W \<in> set (trace w) \<longrightarrow> continued w0 sch"
    using hi by (simp add: hist_def)
  have e: "pc w = Finished \<and> Ret Returns \<in> set (trace w) \<longrightarrow>
            count_list (trace w) Emit_waiting = 1"
    using shape_finished [OF sh] by (simp add: backup_call_def write_call_def)
  from a b c d e show ?thesis by blast
qed

lemma full_run_pc: "pc (exec full_run worker_1MB) = Finished"
  by (simp add: step_def full_run_def worker_1MB_def params_1MB_def ESPWorker_init_def
        emit_def setContinueFlag_def continueFlag_def continue_ok_def main_ends_def
        after_main_def)

lemma full_run_trace:
  "trace (exec full_run worker_1MB) =
     [backup_call worker_1MB ''0x100000'', Ret Returns, Emit_waiting, write_call worker_1MB,
      Ret Returns, Emit_done]"
  by (simp add: step_def full_run_def worker_1MB_def params_1MB_def ESPWorker_init_def backup_call_def
        write_call_def command_backup_def command_write_def emit_def setContinueFlag_def
        continueFlag_def continue_ok_def main_ends_def after_main_def)

theorem wait_for_user_once_before_write_witness:
  "''backup'' \<in> set [''backup'', ''erase'', ''write'']
   \<and> ''write'' \<in> set [''backup'', ''erase'', ''write'']
   \<and> \<not> p_auto_reset params_1MB \<and> p_backup_size params_1MB = Some ''0x100000''
   \<and> Emit_waiting \<in> set (trace (exec full_run worker_1MB))
   \<and> write_call worker_1MB \<in> set (trace (exec full_run worker_1MB))
   \<and> pc (exec full_run worker_1MB) = Finished
   \<and> Ret Returns \<in> set (trace (exec full_run worker_1MB))
   \<and> (\<exists>rest. trace (exec full_run worker_1MB) =
          [backup_call worker_1MB ''0x100000'', Ret Returns, Emit_waiting, write_call worker_1MB] @ rest
          \<and> Emit_waiting \<notin> set rest)
   \<and> continued worker_1MB full_run
   \<and> count_list (trace (exec full_run worker_1MB)) Emit_waiting = 1"
proof -
  have h1: "''backup'' \<in> set [''backup'', ''erase'', ''write'']"
    and h2: "''write'' \<in> set [''backup'', ''erase'', ''write'']"
    by simp_all
  have h3: "\<not> p_auto_reset params_1MB" and h4: "p_backup_size params_1MB = Some ''0x100000''"
    by (simp_all add: params_1MB_def)
  have h5: "Emit_waiting \<in> set (trace (exec full_run worker_1MB))"
    and h6: "write_call worker_1MB \<in> set (trace (exec full_run worker_1MB))"
    and h7: "Ret Returns \<in> set (trace (exec full_run worker_1MB))"
    by (simp_all add: full_run_trace)
  note h8 = full_run_pc
  from wait_for_user_once_before_write [OF h1 h2 h3 h4 worker_1MB_def refl, of full_run]
    h5 h6 h7 h8
  have k: "(\<exists>rest. trace (exec full_run worker_1MB) =
          [backup_call worker_1MB ''0x100000'', Ret Returns, Emit_waiting, write_call worker_1MB] @ rest
          \<and> Emit_waiting \<notin> set rest)
      \<and> continued worker_1MB full_run
      \<and> count_list (trace (exec full_run worker_1MB)) Emit_waiting = 1"
    by blast
  from h1 h2 h3 h4 h5 h6 h8 h7 k show ?thesis
    by (intro conjI) blast+
qed

lemma abort_idem: "abort (abort w) = abort w"
  by (simp add: abort_def setContinueFlag_def)

lemma exec1_aborted:
  assumes "\<not> sw_continue w" and "pc w \<noteq> L50" and "pc w \<noteq> L53"
  shows "\<not> sw_continue (exec1 a w) \<and> pc (exec1 a w) \<noteq> L50 \<and> pc (exec1 a w) \<noteq> L53
         \<and> filter is_call (trace (exec1 a w)) = filter is_call (trace w)"
proof (cases a)
  case Step
  then show ?thesis using assms
    by (cases "pc w")
       (simp_all add: step_def emit_def is_call_def continueFlag_def setContinueFlag_def)
next
  case (Main_ends r)
  then show ?thesis using assms
    by (cases "pc w"; cases r) (simp_all add: main_ends_def after_main_def emit_def is_call_def)
next
  case Continue_ok
  then show ?thesis using assms by (simp add: continue_ok_def)
next
  case Abort
  then show ?thesis using assms by (simp add: abort_def setContinueFlag_def)
qed

lemma exec_aborted:
  assumes "\<not> sw_continue w" and "pc w \<noteq> L50" and "pc w \<noteq> L53"
  shows "filter is_call (trace (exec sch w)) = filter is_call (trace w)"
  using assms
proof (induction sch arbitrary: w)
  case Nil
  then show ?case by simp
next
  case (Cons a sch)
  from exec1_aborted [OF Cons.prems, of a]
  have "filter is_call (trace (exec sch (exec1 a w))) = filter is_call (trace (exec1 a w))"
    by (intro Cons.IH) simp_all
  with exec1_aborted [OF Cons.prems, of a] show ?case by simp
qed

text \<open>
  C5. \<^verbatim>\<open>abort\<close> called while the worker is inside a driver call (a stage is running)
  clears the driver's continue flag, and whatever happens afterwards no further driver
  call is made: the calls among the events stay the ones made before. A second \<^verbatim>\<open>abort\<close>
  changes nothing.
\<close>

theorem abort_stops_later_stages:
  assumes "pc w = In_backup \<or> pc w = In_write"
  shows "continueFlag (abort w) = False
       \<and> filter is_call (trace (exec sch (abort w))) = filter is_call (trace w)
       \<and> abort (abort w) = abort w"
proof -
  have "\<not> sw_continue (abort w)" "pc (abort w) \<noteq> L50" "pc (abort w) \<noteq> L53" "trace (abort w) = trace w"
    using assms by (auto simp: abort_def setContinueFlag_def)
  with exec_aborted [of "abort w" sch] show ?thesis
    by (simp add: abort_idem continueFlag_def)
qed

theorem abort_stops_later_stages_witness:
  "(pc (exec [Step, Step] worker_1MB) = In_backup \<or> pc (exec [Step, Step] worker_1MB) = In_write)
   \<and> continueFlag (abort (exec [Step, Step] worker_1MB)) = False
   \<and> filter is_call (trace (exec [Main_ends Returns, Step, Step, Step, Continue_ok, Step, Step, Step]
        (abort (exec [Step, Step] worker_1MB)))) = [backup_call worker_1MB ''0x100000'']
   \<and> abort (abort (exec [Step, Step] worker_1MB)) = abort (exec [Step, Step] worker_1MB)"
proof -
  let ?w = "exec [Step, Step] worker_1MB"
  have h: "pc ?w = In_backup \<or> pc ?w = In_write"
    by (simp add: step_def worker_1MB_def params_1MB_def ESPWorker_init_def
          setContinueFlag_def emit_def)
  have t: "filter is_call (trace ?w) = [backup_call worker_1MB ''0x100000'']"
    by (simp add: step_def worker_1MB_def params_1MB_def ESPWorker_init_def
          setContinueFlag_def emit_def backup_call_def command_backup_def is_call_def)
  note r = abort_stops_later_stages [OF h,
      of "[Main_ends Returns, Step, Step, Step, Continue_ok, Step, Step, Step]"]
  from r have a: "continueFlag (abort ?w) = False"
    by (rule conjunct1)
  from r have b: "filter is_call (trace (exec
        [Main_ends Returns, Step, Step, Step, Continue_ok, Step, Step, Step] (abort ?w))) =
      filter is_call (trace ?w)"
    by (rule conjunct1 [OF conjunct2])
  from r have c: "abort (abort ?w) = abort ?w"
    by (rule conjunct2 [OF conjunct2])
  from h a trans [OF b t] c show ?thesis
    by (intro conjI)
qed

section \<open>The brace-counting reader\<close>

lemma count_brackets_fields [simp]:
  "data (count_brackets d s) = data s"
  "jsons (count_brackets d s) = jsons s"
  "done_emitted (count_brackets d s) = done_emitted s"
  "written (count_brackets d s) = written s"
  "brackets_open (count_brackets d s) = brackets_open s + int (count_list d LBRACE)"
  by (simp_all add: count_brackets_def Let_def)

lemma read_gpios_fields [simp]:
  "data (snd (read_gpios s)) = data s"
  "jsons (snd (read_gpios s)) = jsons s"
  "done_emitted (snd (read_gpios s)) = done_emitted s"
  "brackets_open (snd (read_gpios s)) = brackets_open s"
  "brackets_close (snd (read_gpios s)) = brackets_close s"
  by (simp_all add: read_gpios_def Let_def)

lemma call_slots_fields [simp]:
  "data (call_slots n s) = data s"
  "jsons (call_slots n s) = jsons s"
  "done_emitted (call_slots n s) = done_emitted s"
  "brackets_open (call_slots n s) = brackets_open s"
  "brackets_close (call_slots n s) = brackets_close s"
  by (induction n arbitrary: s; simp)+

lemma emit_components_done_fields [simp]:
  "data (emit_components_done s) = data s"
  "jsons (emit_components_done s) = jsons s"
  "done_emitted (emit_components_done s) = Suc (done_emitted s)"
  "brackets_open (emit_components_done s) = brackets_open s"
  "brackets_close (emit_components_done s) = brackets_close s"
  by (simp_all add: emit_components_done_def Let_def)

text \<open>
  Line 343 runs in every call in which the open counter is positive, not only in the call
  in which it becomes positive: after such a call the close counter is the number of close
  braces of that call's chunk alone.
\<close>

lemma close_counter_restarts:
  "0 < brackets_open (count_brackets d s) \<Longrightarrow>
     brackets_close (count_brackets d s) = int (count_list d RBRACE)"
  by (auto simp: count_brackets_def Let_def split: if_splits)

text \<open>No path through \<^verbatim>\<open>read_json\<close> assigns the counters after line 344.\<close>

lemma read_json_counters:
  assumes "read_json loads d s = (r, s')"
  shows "brackets_open s' = brackets_open (count_brackets d s)
       \<and> brackets_close s' = brackets_close (count_brackets d s)"
  using assms
  by (auto simp: read_json_def Let_def split: option.splits if_splits)

lemmas reader_defs = read_json_def count_brackets_def emit_components_done_def read_gpios_def
  strip_newlines_def LBRACE_def RBRACE_def CR_def LF_def byte_def Let_def

lemma started_eq:
  "started =
     \<lparr>components = None, gpios = None, jsons = [], brackets_open = 0, brackets_close = - 1,
      data = None, written = [''GPIOs'' @ [LF]], done_emitted = 0, gpios_slots = 1\<rparr>"
  by (simp add: started_def read_init_config_def new_dialog_def)

subsection \<open>Without the attribute \<open>data\<close>\<close>




lemma chunk_counts_on_started:
  "read_json loads ''{\"a\": {\"b\": 1}'' started =
     (Inl AttributeError, started\<lparr>brackets_open := 2, brackets_close := 1\<rparr>)"
  "read_json loads ''}'' (started\<lparr>brackets_open := 2, brackets_close := 1\<rparr>) =
     (Inl AttributeError, started\<lparr>brackets_open := 2, brackets_close := 1\<rparr>)"
  "read_json loads nested_object started =
     (Inl AttributeError, started\<lparr>brackets_open := 2, brackets_close := 2\<rparr>)"
  by (simp_all add: started_eq nested_object_def reader_defs)

text \<open>
  C1. Claim: feeding the chunks of a byte sequence one by one yields the same as feeding
  the sequence in one call, the close counter being reset to 0 only when the open counter
  first becomes positive, not on later chunks. On the dialog as \<^verbatim>\<open>__init__\<close> and
  \<^verbatim>\<open>read_init_config\<close> leave it, the chunk \<^verbatim>\<open>{"a": {"b": 1}\<close> brings the counters to 2
  and 1. The open counter is positive from then on, and yet the call for the next chunk
  \<^verbatim>\<open>}\<close> sets the close counter back to 0 before it counts the brace: the counters end at
  2 and 1, where one call for the whole text leaves 2 and 2. (Each of these calls then
  raises \<^verbatim>\<open>AttributeError\<close> at line 345, so that no message is produced either way.)
\<close>

theorem close_counter_reset_on_later_chunk:
  "read_json loads ''{\"a\": {\"b\": 1}'' started =
     (Inl AttributeError, started\<lparr>brackets_open := 2, brackets_close := 1\<rparr>)
   \<and> read_json loads ''}'' (started\<lparr>brackets_open := 2, brackets_close := 1\<rparr>) =
     (Inl AttributeError, started\<lparr>brackets_open := 2, brackets_close := 1\<rparr>)
   \<and> slot_calls loads [''{\"a\": {\"b\": 1}'', ''}''] started =
     started\<lparr>brackets_open := 2, brackets_close := 1\<rparr>
   \<and> slot_calls loads [nested_object] started =
     started\<lparr>brackets_open := 2, brackets_close := 2\<rparr>
   \<and> concat [''{\"a\": {\"b\": 1}'', ''}''] = nested_object"
proof -
  have a: "slot_calls loads [''{\"a\": {\"b\": 1}'', ''}''] started =
     started\<lparr>brackets_open := 2, brackets_close := 1\<rparr>"
    by (simp only: slot_calls.simps chunk_counts_on_started snd_conv)
  have b: "slot_calls loads [nested_object] started =
     started\<lparr>brackets_open := 2, brackets_close := 2\<rparr>"
    by (simp only: slot_calls.simps chunk_counts_on_started snd_conv)
  have c: "concat [''{\"a\": {\"b\": 1}'', ''}''] = nested_object"
    by (simp add: nested_object_def)
  from chunk_counts_on_started(1,2) a b c show ?thesis
    by (intro conjI)
qed



lemma nested_in_one_call:
  "read_json loads_text nested_object buffered =
     (Inr (), buffered\<lparr>brackets_open := 2, brackets_close := 2, jsons := [nested_object],
        done_emitted := 1, written := [''GPIOs'' @ [LF], ''GPIO'' @ [LF]]\<rparr>)"
  by (simp add: buffered_def started_eq nested_object_def reader_defs loads_text_def)

text \<open>
  C9. Claim: the text \<^verbatim>\<open>{"a": {"b": 1}}\<close> fed in one call yields exactly one message.
  On the dialog as \<^verbatim>\<open>__init__\<close> and \<^verbatim>\<open>read_init_config\<close> leave it, the call counts the
  braces and then raises \<^verbatim>\<open>AttributeError\<close> at line 345, because no statement has
  assigned \<^verbatim>\<open>self.data\<close>: no message. Once the attribute holds \<^verbatim>\<open>b''\<close> the same call
  returns normally with exactly one message, the whole object, and one emission of the
  signal.
\<close>

theorem nested_object_needs_the_buffer:
  "read_json loads_text nested_object started =
     (Inl AttributeError, started\<lparr>brackets_open := 2, brackets_close := 2\<rparr>)
   \<and> jsons (snd (read_json loads_text nested_object started)) = []
   \<and> fst (read_json loads_text nested_object buffered) = Inr ()
   \<and> jsons (snd (read_json loads_text nested_object buffered)) = [nested_object]
   \<and> done_emitted (snd (read_json loads_text nested_object buffered)) = 1"
proof -
  have r: "read_json loads_text nested_object started =
     (Inl AttributeError, started\<lparr>brackets_open := 2, brackets_close := 2\<rparr>)"
    by (simp add: started_eq nested_object_def reader_defs)
  show ?thesis
    unfolding r nested_in_one_call by (simp add: started_eq)
qed

subsection \<open>With the attribute \<open>data\<close> set from outside\<close>

text \<open>
  What \<^verbatim>\<open>read_json\<close> does on a dialog whose attribute \<^verbatim>\<open>data\<close> has been assigned by
  something other than the code of the class. When a call completes a window (the
  counters are equal after the chunk was counted) and the buffer with the chunk is
  well-formed UTF-8: if nothing matches the pattern, the call returns normally, appends
  no message, emits the signal and empties the buffer; if the match is rejected by
  \<^verbatim>\<open>json.loads\<close>, the \<^verbatim>\<open>JSONDecodeError\<close> leaves \<^verbatim>\<open>read_json\<close>, no message is
  appended, no signal is emitted and the buffer keeps the payload; if the match is
  accepted, its value is appended, the signal is emitted and the buffer is emptied.
\<close>

lemma completed_window_outcomes:
  assumes "data s = Some buf"
    and "brackets_open (count_brackets d s) - brackets_close (count_brackets d s) = 0"
    and "utf8_valid (buf @ d)"
    and "read_json loads d s = (r, s')"
  shows "case json_match_first (strip_newlines (buf @ d)) of
           None \<Rightarrow> r = Inr () \<and> jsons s' = jsons s \<and> data s' = Some []
                    \<and> done_emitted s' = Suc (done_emitted s)
         | Some t \<Rightarrow>
            (case loads t of
               None \<Rightarrow> r = Inl JSONDecodeError \<and> jsons s' = jsons s \<and> data s' = Some (buf @ d)
                        \<and> done_emitted s' = done_emitted s
             | Some j \<Rightarrow> r = Inr () \<and> jsons s' = jsons s @ [j] \<and> data s' = Some []
                        \<and> done_emitted s' = Suc (done_emitted s))"
  using assms
  by (auto simp: read_json_def Let_def split: option.splits)

text \<open>
  On \<open>buffered\<close>: the chunk \<^verbatim>\<open>}{\<close> completes a window in which nothing matches; the chunk
  \<^verbatim>\<open>}\<close> completes a window with the open counter at 0; after the chunk \<^verbatim>\<open>{}\<close> has
  completed a message the counters are 1 and 1; and the text \<^verbatim>\<open>{"a": {"b": 1}}\<close> split
  before its last brace completes nothing.
\<close>

lemma buffered_window_without_match:
  "read_json loads ''}{'' buffered =
     (Inr (), buffered\<lparr>brackets_open := 1, brackets_close := 1, done_emitted := 1,
        written := [''GPIOs'' @ [LF], ''GPIO'' @ [LF]]\<rparr>)"
  by (simp add: buffered_def started_eq reader_defs)

lemma buffered_lone_close_brace:
  "read_json loads ''}'' buffered =
     (Inr (), buffered\<lparr>brackets_close := 0, done_emitted := 1,
        written := [''GPIOs'' @ [LF], ''GPIO'' @ [LF]]\<rparr>)"
  by (simp add: buffered_def started_eq reader_defs)

lemma buffered_counters_after_message:
  "read_json loads_text ''{}'' buffered =
     (Inr (), buffered\<lparr>brackets_open := 1, brackets_close := 1, jsons := [''{}''],
        done_emitted := 1, written := [''GPIOs'' @ [LF], ''GPIO'' @ [LF]]\<rparr>)"
  by (simp add: buffered_def started_eq reader_defs loads_text_def)

lemma buffered_split_object:
  "feed loads [''{\"a\": {\"b\": 1}'', ''}''] buffered =
     (Inr (), buffered\<lparr>brackets_open := 2, brackets_close := 1, data := Some nested_object\<rparr>)"
  by (simp add: buffered_def started_eq nested_object_def reader_defs)

end
